theory Spec2Isabelle
  imports Main "HOL-Library.Word"
begin

unbundle bit_operations_syntax

section \<open>Go values, types and errors\<close>

text \<open>
  The package encodes and decodes Go values that it receives as \<^verbatim>\<open>interface{}\<close>, that is,
  as a dynamic type together with a value. The dynamic type is a \<open>gtype\<close>; the value is a
  \<open>gval\<close>. Integers and floating-point numbers are kept as their bit patterns (a word of the
  declared width), which is all \<^verbatim>\<open>encoding/binary\<close> looks at; the type says how the
  bits are read. The platform is taken to be a 64-bit one: \<^verbatim>\<open>int\<close> and
  \<^verbatim>\<open>uint\<close> are 64 bits wide.

  \<open>TNamed n u\<close> is a defined type named \<open>n\<close> with underlying type \<open>u\<close>
  (\<^verbatim>\<open>type Foo int64\<close> is \<open>TNamed ''Foo'' (TSized Int64)\<close>). \<open>TChan\<close> stands for
  the kinds the package has no case for. A map value lists its pairs in the order in which
  the runtime happens to enumerate them; the keys of a map are distinct.
\<close>

type_synonym byte = "8 word"

datatype sized =
  Int8 | Uint8 | Int16 | Uint16 | Int32 | Uint32 | Int64 | Uint64
  | Float32 | Float64 | Complex64 | Complex128

datatype gtype =
  TBool | TInt | TUint | TSized sized | TString
  | TSlice gtype | TArray nat gtype | TMap gtype gtype
  | TStruct "(string \<times> gtype) list"
  | TPtr gtype | TNamed string gtype | TChan gtype

datatype gval =
  VBool bool
  | VW8 "8 word" | VW16 "16 word" | VW32 "32 word" | VW64 "64 word"
  | VC64 "32 word" "32 word" | VC128 "64 word" "64 word"
  | VString "byte list"
  | VSeq "gval list"
  | VMap "(gval \<times> gval) list"
  | VStruct "gval list"
  | VPtr gval | VNil

datatype error =
  EOF | ErrUnexpectedEOF | ErrOverflow | ErrNoProgress
  | Unsupported gtype
  | NotPointer
  | SizeMismatch "64 word" nat
  | Custom string
  | Panic string
  | IllTyped

text \<open>
  \<open>Unsupported t\<close> is \<^verbatim>\<open>errors.New("unsupported type " + t.String())\<close>,
  \<open>NotPointer\<close> is \<^verbatim>\<open>"can only Decode to pointer type"\<close>, \<open>SizeMismatch l n\<close>
  is \<^verbatim>\<open>"encoded size %d != real size %d"\<close>. \<open>Custom\<close> errors come from sinks and
  from user methods. \<open>Panic\<close> is a run-time panic of the Go program. \<open>IllTyped\<close> is
  returned by the model where a value does not have the shape of its type, which no Go
  program can produce.
\<close>

fun underlying :: "gtype \<Rightarrow> gtype" where
  "underlying (TNamed n u) = u"
| "underlying t = t"

lemma size_underlying: "size (underlying t) \<le> size t"
  by (cases t) simp_all

fun zero_sized :: "sized \<Rightarrow> gval" where
  "zero_sized Int8 = VW8 0"
| "zero_sized Uint8 = VW8 0"
| "zero_sized Int16 = VW16 0"
| "zero_sized Uint16 = VW16 0"
| "zero_sized Int32 = VW32 0"
| "zero_sized Uint32 = VW32 0"
| "zero_sized Int64 = VW64 0"
| "zero_sized Uint64 = VW64 0"
| "zero_sized Float32 = VW32 0"
| "zero_sized Float64 = VW64 0"
| "zero_sized Complex64 = VC64 0 0"
| "zero_sized Complex128 = VC128 0 0"

text \<open>The zero value of a type: what \<^verbatim>\<open>reflect.New\<close>, \<^verbatim>\<open>reflect.MakeSlice\<close> and a
  fresh variable hold.\<close>

fun zero :: "gtype \<Rightarrow> gval" where
  "zero TBool = VBool False"
| "zero TInt = VW64 0"
| "zero TUint = VW64 0"
| "zero (TSized k) = zero_sized k"
| "zero TString = VString []"
| "zero (TSlice t) = VSeq []"
| "zero (TArray n t) = VSeq (replicate n (zero t))"
| "zero (TMap kt vt) = VMap []"
| "zero (TStruct fs) = VStruct (map (\<lambda>f. zero (snd f)) fs)"
| "zero (TPtr t) = VNil"
| "zero (TNamed n u) = zero u"
| "zero (TChan t) = VNil"

section \<open>Fixed-width scalars: \<^verbatim>\<open>encoding/binary\<close> in little-endian order\<close>

text \<open>\<^verbatim>\<open>DefaultEndian = binary.LittleEndian\<close>: byte \<open>i\<close> of the encoding is
  \<^verbatim>\<open>byte(v >> (8*i))\<close>.\<close>

fun le_bytes :: "nat \<Rightarrow> 'a::len word \<Rightarrow> byte list" where
  "le_bytes 0 w = []"
| "le_bytes (Suc n) w = ucast w # le_bytes n (drop_bit 8 w)"

fun le_word :: "byte list \<Rightarrow> 'a::len word" where
  "le_word [] = 0"
| "le_word (b # bs) = ucast b OR push_bit 8 (le_word bs)"

fun sized_len :: "sized \<Rightarrow> nat" where
  "sized_len Int8 = 1"
| "sized_len Uint8 = 1"
| "sized_len Int16 = 2"
| "sized_len Uint16 = 2"
| "sized_len Int32 = 4"
| "sized_len Uint32 = 4"
| "sized_len Int64 = 8"
| "sized_len Uint64 = 8"
| "sized_len Float32 = 4"
| "sized_len Float64 = 8"
| "sized_len Complex64 = 8"
| "sized_len Complex128 = 16"

text \<open>The bytes \<^verbatim>\<open>binary.Write\<close> produces for a value of a sized type; a complex number is
  its real part followed by its imaginary part.\<close>

definition put_sized :: "sized \<Rightarrow> gval \<Rightarrow> byte list option" where
  "put_sized k v =
     (case k of
        Int8 \<Rightarrow> (case v of VW8 w \<Rightarrow> Some [w] | _ \<Rightarrow> None)
      | Uint8 \<Rightarrow> (case v of VW8 w \<Rightarrow> Some [w] | _ \<Rightarrow> None)
      | Int16 \<Rightarrow> (case v of VW16 w \<Rightarrow> Some (le_bytes 2 w) | _ \<Rightarrow> None)
      | Uint16 \<Rightarrow> (case v of VW16 w \<Rightarrow> Some (le_bytes 2 w) | _ \<Rightarrow> None)
      | Int32 \<Rightarrow> (case v of VW32 w \<Rightarrow> Some (le_bytes 4 w) | _ \<Rightarrow> None)
      | Uint32 \<Rightarrow> (case v of VW32 w \<Rightarrow> Some (le_bytes 4 w) | _ \<Rightarrow> None)
      | Int64 \<Rightarrow> (case v of VW64 w \<Rightarrow> Some (le_bytes 8 w) | _ \<Rightarrow> None)
      | Uint64 \<Rightarrow> (case v of VW64 w \<Rightarrow> Some (le_bytes 8 w) | _ \<Rightarrow> None)
      | Float32 \<Rightarrow> (case v of VW32 w \<Rightarrow> Some (le_bytes 4 w) | _ \<Rightarrow> None)
      | Float64 \<Rightarrow> (case v of VW64 w \<Rightarrow> Some (le_bytes 8 w) | _ \<Rightarrow> None)
      | Complex64 \<Rightarrow>
          (case v of VC64 re im \<Rightarrow> Some (le_bytes 4 re @ le_bytes 4 im) | _ \<Rightarrow> None)
      | Complex128 \<Rightarrow>
          (case v of VC128 re im \<Rightarrow> Some (le_bytes 8 re @ le_bytes 8 im) | _ \<Rightarrow> None))"

text \<open>The value \<^verbatim>\<open>binary.Read\<close> stores from \<open>sized_len k\<close> bytes.\<close>

fun get_sized :: "sized \<Rightarrow> byte list \<Rightarrow> gval" where
  "get_sized Int8 bs = VW8 (le_word bs)"
| "get_sized Uint8 bs = VW8 (le_word bs)"
| "get_sized Int16 bs = VW16 (le_word bs)"
| "get_sized Uint16 bs = VW16 (le_word bs)"
| "get_sized Int32 bs = VW32 (le_word bs)"
| "get_sized Uint32 bs = VW32 (le_word bs)"
| "get_sized Int64 bs = VW64 (le_word bs)"
| "get_sized Uint64 bs = VW64 (le_word bs)"
| "get_sized Float32 bs = VW32 (le_word bs)"
| "get_sized Float64 bs = VW64 (le_word bs)"
| "get_sized Complex64 bs = VC64 (le_word (take 4 bs)) (le_word (drop 4 bs))"
| "get_sized Complex128 bs = VC128 (le_word (take 8 bs)) (le_word (drop 8 bs))"

section \<open>The sink\<close>

text \<open>
  An \<^verbatim>\<open>io.Writer\<close> is a function from the sink's state and the bytes of one
  \<^verbatim>\<open>Write\<close> call to an error (or none) and the new state. \<^verbatim>\<open>Marshal\<close> writes to a
  \<^verbatim>\<open>bytes.Buffer\<close>, whose state is its content and whose writes never fail.
\<close>

type_synonym 's writer = "'s \<Rightarrow> byte list \<Rightarrow> error option \<times> 's"

definition Buffer_Write :: "byte list writer" where
  "Buffer_Write s p = (None, s @ p)"

section \<open>Varints\<close>

text \<open>
  \<^verbatim>\<open>binary.PutUvarint(buf, x)\<close> stores into \<open>buf\<close>, of length \<open>n\<close>, and panics with an
  index out of range when the encoding does not fit:
  \<^verbatim>\<open>
  i := 0
  for x >= 0x80 { buf[i] = byte(x) | 0x80; x >>= 7; i++ }
  buf[i] = byte(x)
  return i + 1
  \<close>
  The result is \<open>buf[:i+1]\<close>.
\<close>

function PutUvarint_loop :: "nat \<Rightarrow> 64 word \<Rightarrow> nat \<Rightarrow> byte list \<Rightarrow> error + byte list" where
  "PutUvarint_loop n x i acc =
     (if 0x80 \<le> x
      then (if i < n then PutUvarint_loop n (drop_bit 7 x) (i + 1) (acc @ [ucast x OR 0x80])
            else Inl (Panic ''index out of range''))
      else (if i < n then Inr (acc @ [ucast x]) else Inl (Panic ''index out of range'')))"
  by pat_completeness auto
termination
proof (relation "measure (\<lambda>(n, x, i, acc). unat x)", goal_cases)
  case 1
  show ?case by simp
next
  case (2 n x i acc)
  have "unat (drop_bit 7 x) = unat x div 128"
    by (simp add: drop_bit_eq_div unat_div)
  moreover have "128 \<le> unat x"
    using 2(1) by (simp add: word_le_nat_alt)
  ultimately show ?case by simp
qed

declare PutUvarint_loop.simps [simp del]

definition PutUvarint :: "nat \<Rightarrow> 64 word \<Rightarrow> error + byte list" where
  "PutUvarint n x = PutUvarint_loop n x 0 []"

text \<open>\<^verbatim>\<open>NewEncoder\<close> gives the encoder a scratch buffer of 8 bytes:
  \<^verbatim>\<open>&Encoder{w, make([]byte, 8)}\<close>.\<close>

definition Encoder_buf_len :: nat where
  "Encoder_buf_len = 8"

text \<open>\<^verbatim>\<open>writeVarint(v int)\<close>: \<open>v\<close> is given by its 64 bits, which is what
  \<^verbatim>\<open>uint64(v)\<close> keeps.\<close>

definition writeVarint :: "'s writer \<Rightarrow> 64 word \<Rightarrow> 's \<Rightarrow> error option \<times> 's" where
  "writeVarint wr v s =
     (case PutUvarint Encoder_buf_len v of
        Inl e \<Rightarrow> (Some e, s)
      | Inr bs \<Rightarrow> wr s bs)"

section \<open>The source: a \<^verbatim>\<open>bufio.Reader\<close> over a \<^verbatim>\<open>bytes.Reader\<close>\<close>

text \<open>
  \<^verbatim>\<open>Unmarshal(b, v)\<close> decodes from \<^verbatim>\<open>bufio.NewReader(bytes.NewReader(b))\<close>. The state
  of that reader is the unread part of the 4096-byte buffer (\<open>buffered\<close>, the bytes
  \<^verbatim>\<open>b.buf[b.r:b.w]\<close>) and the bytes the underlying \<^verbatim>\<open>bytes.Reader\<close> still holds
  (\<open>rest\<close>). The reader's stored error \<^verbatim>\<open>b.err\<close> is not part of the state: every
  method that sets it returns it through \<^verbatim>\<open>readErr\<close>, which clears it, before it
  returns.
\<close>

record reader =
  buffered :: "byte list"
  rest :: "byte list"

definition defaultBufSize :: nat where
  "defaultBufSize = 4096"

definition NewReader :: "byte list \<Rightarrow> reader" where
  "NewReader b = \<lparr>buffered = [], rest = b\<rparr>"

text \<open>\<^verbatim>\<open>fill\<close> on an empty buffer: one \<^verbatim>\<open>Read\<close> of the underlying reader into the whole
  buffer, which gives \<^verbatim>\<open>io.EOF\<close> when nothing is left and at least one byte otherwise.\<close>

definition fill :: "reader \<Rightarrow> error option \<times> reader" where
  "fill rd =
     (if rest rd = [] then (Some EOF, rd)
      else (None, \<lparr>buffered = take defaultBufSize (rest rd),
                   rest = drop defaultBufSize (rest rd)\<rparr>))"

text \<open>
  \<^verbatim>\<open>
  func (b *Reader) ReadByte() (byte, error) {
      for b.r == b.w {
          if b.err != nil { return 0, b.readErr() }
          b.fill() // buffer is empty
      }
      c := b.buf[b.r]; b.r++
      return c, nil
  }
  \<close>
\<close>

definition ReadByte :: "reader \<Rightarrow> (error + byte) \<times> reader" where
  "ReadByte rd =
     (case buffered rd of
        c # cs \<Rightarrow> (Inr c, rd\<lparr>buffered := cs\<rparr>)
      | [] \<Rightarrow>
         (case fill rd of
            (Some e, rd') \<Rightarrow> (Inl e, rd')
          | (None, rd') \<Rightarrow>
             (case buffered rd' of
                c # cs \<Rightarrow> (Inr c, rd'\<lparr>buffered := cs\<rparr>)
              | [] \<Rightarrow> (Inl ErrNoProgress, rd'))))"

text \<open>
  \<^verbatim>\<open>(*bufio.Reader).Read(p)\<close> with \<open>n = len(p)\<close>: the bytes copied into \<open>p\<close>, the error
  and the new state. It copies what the buffer holds, at most \<open>n\<close> bytes, and does not
  wait for more; on an empty buffer it reads the underlying reader once (directly into
  \<open>p\<close> when \<open>p\<close> is at least as long as the buffer).
\<close>

definition bufio_Read :: "reader \<Rightarrow> nat \<Rightarrow> byte list \<times> error option \<times> reader" where
  "bufio_Read rd n =
     (if n = 0 then ([], None, rd)
      else if buffered rd = [] then
        (if rest rd = [] then ([], Some EOF, rd)
         else if defaultBufSize \<le> n
           then (take n (rest rd), None, rd\<lparr>rest := drop n (rest rd)\<rparr>)
         else (take n (take defaultBufSize (rest rd)), None,
               \<lparr>buffered = drop n (take defaultBufSize (rest rd)),
                rest = drop defaultBufSize (rest rd)\<rparr>))
      else (take n (buffered rd), None, rd\<lparr>buffered := drop n (buffered rd)\<rparr>))"

lemma bufio_Read_progress:
  "bufio_Read rd n = (got, None, rd') \<Longrightarrow> 0 < n \<Longrightarrow> got \<noteq> []"
  by (auto simp: bufio_Read_def defaultBufSize_def split: if_splits)

lemma bufio_Read_progress_length:
  "(got, y) = bufio_Read rd n \<Longrightarrow> (None, rd') = y \<Longrightarrow> 0 < n \<Longrightarrow> 0 < length got"
  using bufio_Read_progress [of rd n got rd'] by simp

text \<open>
  \<^verbatim>\<open>buf := make([]byte, l); _, err = d.r.Read(buf)\<close>: the buffer after the call (what was
  read, then the zeros \<^verbatim>\<open>make\<close> put there), the error and the new state.
\<close>

definition Read_into :: "reader \<Rightarrow> nat \<Rightarrow> byte list \<times> error option \<times> reader" where
  "Read_into rd l =
     (case bufio_Read rd l of
        (got, err, rd') \<Rightarrow> (got @ replicate (l - length got) 0, err, rd'))"

text \<open>
  \<^verbatim>\<open>io.ReadFull(r, buf)\<close> with \<open>n = len(buf)\<close>:
  \<^verbatim>\<open>
  for n < min && err == nil { nn, err = r.Read(buf[n:]); n += nn }
  if n >= min { err = nil } else if n > 0 && err == EOF { err = ErrUnexpectedEOF }
  \<close>
\<close>

function ReadFull_loop :: "reader \<Rightarrow> nat \<Rightarrow> byte list \<Rightarrow> byte list \<times> error option \<times> reader" where
  "ReadFull_loop rd n acc =
     (if length acc < n then
        (case bufio_Read rd (n - length acc) of
           (got, None, rd') \<Rightarrow> ReadFull_loop rd' n (acc @ got)
         | (got, Some e, rd') \<Rightarrow>
             (if n \<le> length (acc @ got) then (acc @ got, None, rd')
              else if 0 < length (acc @ got) \<and> e = EOF then (acc @ got, Some ErrUnexpectedEOF, rd')
              else (acc @ got, Some e, rd')))
      else (acc, None, rd))"
  by pat_completeness auto
termination
  apply (relation "measure (\<lambda>(rd, n, acc). n - length acc)")
   apply simp
  apply simp
  apply (frule (1) bufio_Read_progress_length)
   apply simp
  apply linarith
  done

declare ReadFull_loop.simps [simp del]

definition ReadFull :: "reader \<Rightarrow> nat \<Rightarrow> byte list \<times> error option \<times> reader" where
  "ReadFull rd n = ReadFull_loop rd n []"

text \<open>\<^verbatim>\<open>binary.Read\<close> of a value of \<open>n\<close> bytes: the bytes, or the error of
  \<^verbatim>\<open>io.ReadFull\<close>, in which case the value read into is left alone.\<close>

definition binary_Read :: "reader \<Rightarrow> nat \<Rightarrow> (error + byte list) \<times> reader" where
  "binary_Read rd n =
     (case ReadFull rd n of
        (bs, Some e, rd') \<Rightarrow> (Inl e, rd')
      | (bs, None, rd') \<Rightarrow> (Inr bs, rd'))"

text \<open>
  \<^verbatim>\<open>
  func ReadUvarint(r io.ByteReader) (uint64, error) {
      var x uint64; var s uint
      for i := 0; i < MaxVarintLen64; i++ {
          b, err := r.ReadByte()
          if err != nil {
              if i > 0 && err == io.EOF { err = io.ErrUnexpectedEOF }
              return x, err
          }
          if b < 0x80 {
              if i == MaxVarintLen64-1 && b > 1 { return x, errOverflow }
              return x | uint64(b)<<s, nil
          }
          x |= uint64(b&0x7f) << s
          s += 7
      }
      return x, errOverflow
  }
  \<close>
\<close>

definition MaxVarintLen64 :: nat where
  "MaxVarintLen64 = 10"

function ReadUvarint_loop ::
  "reader \<Rightarrow> 64 word \<Rightarrow> nat \<Rightarrow> nat \<Rightarrow> 64 word \<times> error option \<times> reader" where
  "ReadUvarint_loop rd x s i =
     (if i < MaxVarintLen64 then
        (case ReadByte rd of
           (Inl e, rd') \<Rightarrow> (x, Some (if 0 < i \<and> e = EOF then ErrUnexpectedEOF else e), rd')
         | (Inr b, rd') \<Rightarrow>
             (if b < 0x80 then
                (if i = MaxVarintLen64 - 1 \<and> 1 < b then (x, Some ErrOverflow, rd')
                 else (x OR push_bit s (ucast b), None, rd'))
              else ReadUvarint_loop rd' (x OR push_bit s (ucast (b AND 0x7f))) (s + 7) (i + 1)))
      else (x, Some ErrOverflow, rd))"
  by pat_completeness auto
termination
  by (relation "measure (\<lambda>(rd, x, s, i). MaxVarintLen64 - i)") auto

declare ReadUvarint_loop.simps [simp del]

definition ReadUvarint :: "reader \<Rightarrow> 64 word \<times> error option \<times> reader" where
  "ReadUvarint rd = ReadUvarint_loop rd 0 0 0"

section \<open>User methods\<close>

text \<open>
  A defined type may implement \<^verbatim>\<open>encoding.BinaryMarshaler\<close> and
  \<^verbatim>\<open>encoding.BinaryUnmarshaler\<close>. The method environment gives, for a type name, the
  method and whether its receiver is a pointer. A method with a value receiver is in the
  method set of \<open>T\<close> and of \<open>*T\<close>, one with a pointer receiver only in that of \<open>*T\<close>.
  \<^verbatim>\<open>MarshalBinary\<close> is a function of the receiver's value; \<^verbatim>\<open>UnmarshalBinary\<close> takes
  the receiver's value and the data and returns its error and the receiver's new value.
\<close>

record menv =
  MarshalBinary :: "string \<Rightarrow> (bool \<times> (gval \<Rightarrow> error + byte list)) option"
  UnmarshalBinary :: "string \<Rightarrow> (bool \<times> (gval \<Rightarrow> byte list \<Rightarrow> error option \<times> gval)) option"

definition no_methods :: menv where
  "no_methods = \<lparr>MarshalBinary = (\<lambda>n. None), UnmarshalBinary = (\<lambda>n. None)\<rparr>"

text \<open>\<^verbatim>\<open>case encoding.BinaryMarshaler: buf, err := cv.MarshalBinary()\<close>: the result of the
  call when the dynamic type has the method, \<open>None\<close> when it has not.\<close>

definition as_BinaryMarshaler :: "menv \<Rightarrow> gtype \<Rightarrow> gval \<Rightarrow> (error + byte list) option" where
  "as_BinaryMarshaler env t v =
     (case t of
        TNamed n u \<Rightarrow>
          (case MarshalBinary env n of
             Some (ptr, f) \<Rightarrow> (if ptr then None else Some (f v))
           | None \<Rightarrow> None)
      | TPtr t' \<Rightarrow>
          (case t' of
             TNamed n u \<Rightarrow>
               (case MarshalBinary env n of
                  Some (ptr, f) \<Rightarrow>
                    (case v of
                       VPtr x \<Rightarrow> Some (f x)
                     | _ \<Rightarrow> (if ptr then Some (f VNil)
                             else Some (Inl (Panic ''nil pointer dereference''))))
                | None \<Rightarrow> None)
           | _ \<Rightarrow> None)
      | _ \<Rightarrow> None)"

text \<open>\<^verbatim>\<open>i, ok := v.(encoding.BinaryUnmarshaler)\<close>: when the dynamic type has the method,
  the function from the data to the error and the new value of \<open>v\<close>. A method with a value
  receiver changes a copy.\<close>

definition as_BinaryUnmarshaler ::
  "menv \<Rightarrow> gtype \<Rightarrow> gval \<Rightarrow> (byte list \<Rightarrow> error option \<times> gval) option" where
  "as_BinaryUnmarshaler env t v =
     (case t of
        TNamed n u \<Rightarrow>
          (case UnmarshalBinary env n of
             Some (ptr, g) \<Rightarrow> (if ptr then None else Some (\<lambda>buf. (fst (g v buf), v)))
           | None \<Rightarrow> None)
      | TPtr t' \<Rightarrow>
          (case t' of
             TNamed n u \<Rightarrow>
               (case UnmarshalBinary env n of
                  Some (ptr, g) \<Rightarrow>
                    (case v of
                       VPtr x \<Rightarrow>
                         Some (\<lambda>buf. if ptr then (fst (g x buf), VPtr (snd (g x buf)))
                                     else (fst (g x buf), v))
                     | _ \<Rightarrow>
                         Some (\<lambda>buf. if ptr then (fst (g VNil buf), v)
                                     else (Some (Panic ''nil pointer dereference''), v)))
                | None \<Rightarrow> None)
           | _ \<Rightarrow> None)
      | _ \<Rightarrow> None)"

section \<open>Loops and reflection\<close>

text \<open>
  A loop that calls a step on each element in turn and returns at the first error:
  \<^verbatim>\<open>for ... { if err = step(x); err != nil { return } }\<close>.
\<close>

fun each :: "('a \<Rightarrow> 's \<Rightarrow> error option \<times> 's) \<Rightarrow> 'a list \<Rightarrow> 's \<Rightarrow> error option \<times> 's" where
  "each f [] s = (None, s)"
| "each f (x # xs) s =
     (case f x s of
        (Some e, s') \<Rightarrow> (Some e, s')
      | (None, s') \<Rightarrow> each f xs s')"

lemma each_cong [fundef_cong]:
  "xs = ys \<Longrightarrow> s = s' \<Longrightarrow> (\<And>x st. x \<in> set ys \<Longrightarrow> f x st = g x st)
   \<Longrightarrow> each f xs s = each g ys s'"
  by (induction ys arbitrary: xs s s') (auto split: prod.splits option.splits)

text \<open>The kinds \<^verbatim>\<open>t.Kind()\<close> the package has a case for; the kind of a defined type is
  that of its underlying type.\<close>

datatype kind =
  KArray nat gtype | KSlice gtype | KStruct "(string \<times> gtype) list" | KMap gtype gtype | KOther

definition Kind :: "gtype \<Rightarrow> kind" where
  "Kind t =
     (case underlying t of
        TArray n et \<Rightarrow> KArray n et
      | TSlice et \<Rightarrow> KSlice et
      | TStruct fs \<Rightarrow> KStruct fs
      | TMap kt vt \<Rightarrow> KMap kt vt
      | _ \<Rightarrow> KOther)"

definition the_seq :: "gval \<Rightarrow> gval list option" where
  "the_seq v = (case v of VSeq xs \<Rightarrow> Some xs | _ \<Rightarrow> None)"

definition the_struct :: "gval \<Rightarrow> gval list option" where
  "the_struct v = (case v of VStruct xs \<Rightarrow> Some xs | _ \<Rightarrow> None)"

definition the_map :: "gval \<Rightarrow> (gval \<times> gval) list option" where
  "the_map v = (case v of VMap kvs \<Rightarrow> Some kvs | _ \<Rightarrow> None)"

text \<open>
  \<^verbatim>\<open>rv := reflect.Indirect(reflect.ValueOf(v))\<close>: for a pointer, what it points to, which
  is addressable; for anything else the value itself, which is not. The result is
  whether \<open>rv\<close> is addressable, its type and its value; it is \<open>None\<close> for the zero
  \<^verbatim>\<open>reflect.Value\<close> that a nil pointer gives.
\<close>

definition Indirect :: "gtype \<Rightarrow> gval \<Rightarrow> (bool \<times> gtype \<times> gval) option" where
  "Indirect t v =
     (case underlying t of
        TPtr t' \<Rightarrow> (case v of VPtr x \<Rightarrow> Some (True, t', x) | _ \<Rightarrow> None)
      | _ \<Rightarrow> Some (False, t, v))"

lemma the_seq_size: "the_seq v = Some xs \<Longrightarrow> x \<in> set xs \<Longrightarrow> size x < size v"
  by (cases v) (auto simp: the_seq_def less_Suc_eq_le size_list_estimation')

lemma the_struct_size: "the_struct v = Some xs \<Longrightarrow> x \<in> set xs \<Longrightarrow> size x < size v"
  by (cases v) (auto simp: the_struct_def less_Suc_eq_le size_list_estimation')

lemma the_map_size:
  "the_map v = Some kvs \<Longrightarrow> kv \<in> set kvs \<Longrightarrow> size (fst kv) < size v \<and> size (snd kv) < size v"
proof -
  assume m: "the_map v = Some kvs" and kv: "kv \<in> set kvs"
  have "size_prod size size kv \<le> size_list (size_prod size size) kvs"
    using kv by (simp add: size_list_estimation')
  moreover have "size v = Suc (size_list (size_prod size size) kvs)"
    using m by (cases v) (auto simp: the_map_def)
  ultimately show ?thesis
    by (cases kv) simp
qed

lemma zip_struct_size:
  "the_struct v = Some xs \<Longrightarrow> fy \<in> set (zip fs xs) \<Longrightarrow> size (snd fy) < size v"
  by (cases fy) (auto dest: set_zip_rightD the_struct_size)

lemma Indirect_size: "Indirect t v = Some (addr, t', x) \<Longrightarrow> size x \<le> size v"
  by (cases v) (auto simp: Indirect_def split: gtype.splits)

section \<open>The encoder\<close>

text \<open>A struct field can be set when the struct is addressable and the field is
  exported, that is, its name starts with an upper-case letter (of ASCII, in this model).\<close>

definition exported :: "string \<Rightarrow> bool" where
  "exported n = (case n of [] \<Rightarrow> False | c # cs \<Rightarrow> c \<in> set ''ABCDEFGHIJKLMNOPQRSTUVWXYZ'')"

definition CanSet :: "bool \<Rightarrow> string \<Rightarrow> bool" where
  "CanSet addr n = (addr \<and> exported n)"

definition byte_of :: "gval \<Rightarrow> byte option" where
  "byte_of v = (case v of VW8 b \<Rightarrow> Some b | _ \<Rightarrow> None)"

definition bytes_of :: "gval \<Rightarrow> byte list option" where
  "bytes_of v = (case v of VSeq xs \<Rightarrow> those (map byte_of xs) | _ \<Rightarrow> None)"

text \<open>\<^verbatim>\<open>if err = b.writeVarint(len(buf)); err != nil { return }; _, err = b.w.Write(buf)\<close>,
  the body of the marshaler, byte-slice and string cases.\<close>

definition write_blob :: "'s writer \<Rightarrow> byte list \<Rightarrow> 's \<Rightarrow> error option \<times> 's" where
  "write_blob wr buf s =
     (case writeVarint wr (of_nat (length buf)) s of
        (Some e, s') \<Rightarrow> (Some e, s')
      | (None, s') \<Rightarrow> wr s' buf)"

text \<open>
  The cases of the type switch of \<^verbatim>\<open>Encode\<close> from \<^verbatim>\<open>[]byte\<close> to
  \<^verbatim>\<open>complex128\<close>, which match the dynamic type itself and so no defined type:
  the result of the case that matches, \<open>None\<close> when the switch goes to \<^verbatim>\<open>default\<close>.
\<close>

definition encode_basic :: "'s writer \<Rightarrow> gtype \<Rightarrow> gval \<Rightarrow> 's \<Rightarrow> (error option \<times> 's) option" where
  "encode_basic wr t v s =
     (if t = TSlice (TSized Uint8) then
        Some (case bytes_of v of Some bs \<Rightarrow> write_blob wr bs s | None \<Rightarrow> (Some IllTyped, s))
      else if t = TString then
        Some (case v of VString bs \<Rightarrow> write_blob wr bs s | _ \<Rightarrow> (Some IllTyped, s))
      else if t = TBool then
        Some (case v of VBool b \<Rightarrow> wr s [if b then 1 else 0] | _ \<Rightarrow> (Some IllTyped, s))
      else if t = TInt then
        Some (case v of VW64 w \<Rightarrow> wr s (le_bytes 8 w) | _ \<Rightarrow> (Some IllTyped, s))
      else if t = TUint then
        Some (case v of VW64 w \<Rightarrow> wr s (le_bytes 8 w) | _ \<Rightarrow> (Some IllTyped, s))
      else
        (case t of
           TSized k \<Rightarrow>
             Some (case put_sized k v of Some bs \<Rightarrow> wr s bs | None \<Rightarrow> (Some IllTyped, s))
         | _ \<Rightarrow> None))"

text \<open>
  \<open>Encode env wr t v s\<close> is \<^verbatim>\<open>(*Encoder).Encode(v)\<close> for an interface value of dynamic
  type \<open>t\<close> and value \<open>v\<close>, on the sink \<open>wr\<close> in state \<open>s\<close>; it returns the error and the
  sink's new state. The marshaler case comes first, then the basic cases, then the
  \<^verbatim>\<open>default\<close> branch on the kind of \<open>rv\<close>. The elements, fields, keys and values reach the
  recursive call as \<^verbatim>\<open>.Interface()\<close>, that is, by value.
\<close>

function Encode :: "menv \<Rightarrow> 's writer \<Rightarrow> gtype \<Rightarrow> gval \<Rightarrow> 's \<Rightarrow> error option \<times> 's" where
  "Encode env wr t v s =
     (case as_BinaryMarshaler env t v of
        Some (Inl e) \<Rightarrow> (Some e, s)
      | Some (Inr buf) \<Rightarrow> write_blob wr buf s
      | None \<Rightarrow>
          (case encode_basic wr t v s of
             Some r \<Rightarrow> r
           | None \<Rightarrow>
               (case Indirect t v of
                  None \<Rightarrow> (Some (Panic ''reflect: call of Type on zero Value''), s)
                | Some (addr, t', x) \<Rightarrow>
                    (case Kind t' of
                       KArray n et \<Rightarrow>
                         (case the_seq x of
                            None \<Rightarrow> (Some IllTyped, s)
                          | Some xs \<Rightarrow>
                              (case writeVarint wr (of_nat (length xs)) s of
                                 (Some e, s') \<Rightarrow> (Some e, s')
                               | (None, s') \<Rightarrow> each (\<lambda>y st. Encode env wr et y st) xs s'))
                     | KSlice et \<Rightarrow>
                         (case the_seq x of
                            None \<Rightarrow> (Some IllTyped, s)
                          | Some xs \<Rightarrow>
                              (case writeVarint wr (of_nat (length xs)) s of
                                 (Some e, s') \<Rightarrow> (Some e, s')
                               | (None, s') \<Rightarrow> each (\<lambda>y st. Encode env wr et y st) xs s'))
                     | KStruct fs \<Rightarrow>
                         (case the_struct x of
                            None \<Rightarrow> (Some IllTyped, s)
                          | Some xs \<Rightarrow>
                              each (\<lambda>fy st.
                                      if CanSet addr (fst (fst fy)) \<and> fst (fst fy) \<noteq> ''_''
                                      then Encode env wr (snd (fst fy)) (snd fy) st
                                      else (None, st))
                                (zip fs xs) s)
                     | KMap kt vt \<Rightarrow>
                         (case the_map x of
                            None \<Rightarrow> (Some IllTyped, s)
                          | Some kvs \<Rightarrow>
                              (case writeVarint wr (of_nat (length kvs)) s of
                                 (Some e, s') \<Rightarrow> (Some e, s')
                               | (None, s') \<Rightarrow>
                                   each (\<lambda>kv st.
                                           case Encode env wr kt (fst kv) st of
                                             (Some e, st') \<Rightarrow> (Some e, st')
                                           | (None, st') \<Rightarrow> Encode env wr vt (snd kv) st')
                                     kvs s'))
                     | KOther \<Rightarrow> (Some (Unsupported t'), s)))))"
  by pat_completeness auto
termination
proof (relation "measure (\<lambda>(env, wr, t, v, s). size v)", goal_cases)
  case 1
  show ?case by simp
next
  case 2
  then show ?case
    using Indirect_size the_seq_size by (fastforce simp del: Indirect_def)
next
  case 3
  then show ?case
    using Indirect_size the_seq_size by (fastforce simp del: Indirect_def)
next
  case 4
  then show ?case
    using Indirect_size zip_struct_size by fastforce
next
  case 5
  then show ?case
    using Indirect_size the_map_size by fastforce
next
  case 6
  then show ?case
    using Indirect_size the_map_size by fastforce
qed

declare Encode.simps [simp del]

text \<open>\<^verbatim>\<open>Marshal\<close>: encode into an empty \<^verbatim>\<open>bytes.Buffer\<close> and return its content, or the
  error.\<close>

definition Marshal :: "menv \<Rightarrow> gtype \<Rightarrow> gval \<Rightarrow> error + byte list" where
  "Marshal env t v =
     (case Encode env Buffer_Write t v [] of
        (Some e, b) \<Rightarrow> Inl e
      | (None, b) \<Rightarrow> Inr b)"

section \<open>The decoder\<close>

text \<open>The loop over the elements of a sequence or the fields of a struct: each step
  returns the new value of its element; at the first error the loop returns, and what
  was decoded before stays decoded. \<open>keep\<close> gives the value of an element the loop did
  not reach.\<close>

fun decode_each ::
  "('a \<Rightarrow> gval) \<Rightarrow> ('a \<Rightarrow> reader \<Rightarrow> error option \<times> gval \<times> reader) \<Rightarrow> 'a list \<Rightarrow> reader
   \<Rightarrow> error option \<times> gval list \<times> reader" where
  "decode_each keep f [] rd = (None, [], rd)"
| "decode_each keep f (x # xs) rd =
     (case f x rd of
        (Some e, y, rd') \<Rightarrow> (Some e, y # map keep xs, rd')
      | (None, y, rd') \<Rightarrow>
          (case decode_each keep f xs rd' of
             (e, ys, rd'') \<Rightarrow> (e, y # ys, rd'')))"

lemma decode_each_cong [fundef_cong]:
  "xs = ys \<Longrightarrow> rd = rd' \<Longrightarrow> keep = keep' \<Longrightarrow> (\<And>x st. x \<in> set ys \<Longrightarrow> f x st = g x st)
   \<Longrightarrow> decode_each keep f xs rd = decode_each keep' g ys rd'"
  by (induction ys arbitrary: xs rd rd') (auto split: prod.splits option.splits)

text \<open>\<^verbatim>\<open>rv.SetMapIndex(kv, vv)\<close>: a key the map has gets the new value, a new key is
  added.\<close>

fun SetMapIndex :: "(gval \<times> gval) list \<Rightarrow> gval \<Rightarrow> gval \<Rightarrow> (gval \<times> gval) list" where
  "SetMapIndex [] k x = [(k, x)]"
| "SetMapIndex (p # ps) k x = (if fst p = k then (k, x) # ps else p # SetMapIndex ps k x)"

text \<open>The loop of the map case: \<open>n\<close> times, decode a fresh key, decode a fresh value,
  store the pair.\<close>

fun decode_pairs ::
  "(reader \<Rightarrow> error option \<times> gval \<times> reader) \<Rightarrow> (reader \<Rightarrow> error option \<times> gval \<times> reader)
   \<Rightarrow> nat \<Rightarrow> (gval \<times> gval) list \<Rightarrow> reader \<Rightarrow> error option \<times> (gval \<times> gval) list \<times> reader" where
  "decode_pairs dk dv 0 m rd = (None, m, rd)"
| "decode_pairs dk dv (Suc n) m rd =
     (case dk rd of
        (Some e, k, rd') \<Rightarrow> (Some e, m, rd')
      | (None, k, rd') \<Rightarrow>
          (case dv rd' of
             (Some e, x, rd'') \<Rightarrow> (Some e, m, rd'')
           | (None, x, rd'') \<Rightarrow> decode_pairs dk dv n (SetMapIndex m k x) rd''))"

lemma decode_pairs_cong [fundef_cong]:
  "(\<And>st. dk st = dk' st) \<Longrightarrow> (\<And>st. dv st = dv' st) \<Longrightarrow> n = n' \<Longrightarrow> m = m' \<Longrightarrow> rd = rd'
   \<Longrightarrow> decode_pairs dk dv n m rd = decode_pairs dk' dv' n' m' rd'"
proof -
  assume "\<And>st. dk st = dk' st" and "\<And>st. dv st = dv' st"
  then have "dk = dk'" and "dv = dv'"
    by auto
  moreover assume "n = n'" and "m = m'" and "rd = rd'"
  ultimately show ?thesis
    by simp
qed

definition deref :: "gval \<Rightarrow> gval" where
  "deref v = (case v of VPtr x \<Rightarrow> x | _ \<Rightarrow> v)"

text \<open>\<^verbatim>\<open>*cv = x\<close> and then \<^verbatim>\<open>return\<close> with the error \<open>err\<close>; storing through a nil
  pointer panics.\<close>

definition store :: "gval \<Rightarrow> gval \<Rightarrow> error option \<Rightarrow> reader \<Rightarrow> error option \<times> gval \<times> reader" where
  "store v x err rd =
     (case v of
        VPtr old \<Rightarrow> (err, VPtr x, rd)
      | _ \<Rightarrow> (Some (Panic ''nil pointer dereference''), v, rd))"

text \<open>
  \<^verbatim>\<open>l, err = binary.ReadUvarint(d.r); buf := make([]byte, l); _, err = d.r.Read(buf)\<close>:
  the error of the varint, or else the buffer and the error of the one \<^verbatim>\<open>Read\<close>.
  \<^verbatim>\<open>make\<close> panics on a length that is negative as an \<^verbatim>\<open>int\<close>.
\<close>

definition read_blob :: "reader \<Rightarrow> (error + byte list \<times> error option) \<times> reader" where
  "read_blob rd =
     (case ReadUvarint rd of
        (l, Some e, rd') \<Rightarrow> (Inl e, rd')
      | (l, None, rd') \<Rightarrow>
          (if sint l < 0 then (Inl (Panic ''makeslice: len out of range''), rd')
           else (case Read_into rd' (unat l) of
                   (buf, err, rd'') \<Rightarrow> (Inr (buf, err), rd''))))"

text \<open>
  The cases of the type switch of \<^verbatim>\<open>Decode\<close> from \<^verbatim>\<open>*string\<close> to
  \<^verbatim>\<open>*complex128\<close>: the result of the case that matches, \<open>None\<close> when the switch goes to
  \<^verbatim>\<open>default\<close>. The string case stores \<^verbatim>\<open>string(buf)\<close> whatever the \<^verbatim>\<open>Read\<close>
  returned, and returns that error. The bool, int and uint cases store the local
  \<open>out\<close>, which is zero when \<^verbatim>\<open>binary.Read\<close> failed.
\<close>

definition decode_basic ::
  "gtype \<Rightarrow> gval \<Rightarrow> reader \<Rightarrow> (error option \<times> gval \<times> reader) option" where
  "decode_basic t v rd =
     (case t of
        TPtr t' \<Rightarrow>
          (if t' = TString then
             Some (case read_blob rd of
                     (Inl e, rd') \<Rightarrow> (Some e, v, rd')
                   | (Inr (buf, err), rd') \<Rightarrow> store v (VString buf) err rd')
           else if t' = TBool then
             Some (case binary_Read rd 1 of
                     (Inl e, rd') \<Rightarrow> store v (VBool False) (Some e) rd'
                   | (Inr bs, rd') \<Rightarrow> store v (VBool ((le_word bs :: byte) \<noteq> 0)) None rd')
           else if t' = TInt then
             Some (case binary_Read rd 8 of
                     (Inl e, rd') \<Rightarrow> store v (VW64 0) (Some e) rd'
                   | (Inr bs, rd') \<Rightarrow> store v (VW64 (le_word bs)) None rd')
           else if t' = TUint then
             Some (case binary_Read rd 8 of
                     (Inl e, rd') \<Rightarrow> store v (VW64 0) (Some e) rd'
                   | (Inr bs, rd') \<Rightarrow> store v (VW64 (le_word bs)) None rd')
           else
             (case t' of
                TSized k \<Rightarrow>
                  Some (case binary_Read rd (sized_len k) of
                          (Inl e, rd') \<Rightarrow> (Some e, v, rd')
                        | (Inr bs, rd') \<Rightarrow> store v (get_sized k bs) None rd')
              | _ \<Rightarrow> None))
      | _ \<Rightarrow> None)"

lemma Indirect_type_size: "Indirect t v = Some (True, t', x) \<Longrightarrow> size t' < size t"
proof -
  assume a: "Indirect t v = Some (True, t', x)"
  then have "underlying t = TPtr t'"
    by (auto simp: Indirect_def split: gtype.splits gval.splits)
  then have "size (underlying t) = Suc (size t')"
    by simp
  with size_underlying [of t] show ?thesis
    by simp
qed

lemma Kind_size:
  "Kind t = KArray n et \<Longrightarrow> size et < size t"
  "Kind t = KSlice et \<Longrightarrow> size et < size t"
  "Kind t = KMap kt vt \<Longrightarrow> size kt < size t \<and> size vt < size t"
  using size_underlying [of t] by (auto simp: Kind_def split: gtype.splits)

lemma Kind_struct_size: "Kind t = KStruct fs \<Longrightarrow> f \<in> set fs \<Longrightarrow> size (snd f) < size t"
proof -
  assume k: "Kind t = KStruct fs" and f: "f \<in> set fs"
  have "size_prod (\<lambda>x. 0) size f \<le> size_list (size_prod (\<lambda>x. 0) size) fs"
    using f by (simp add: size_list_estimation')
  moreover have "underlying t = TStruct fs"
    using k by (auto simp: Kind_def split: gtype.splits)
  then have "size (underlying t) = Suc (size_list (size_prod (\<lambda>x. 0) size) fs)"
    by simp
  ultimately show ?thesis
    using size_underlying [of t] by (cases f) simp
qed

lemma Decode_term_elem:
  "Indirect t v = Some x2 \<Longrightarrow> (True, y) = x2 \<Longrightarrow> (t', x) = y \<Longrightarrow> size et < size t'
   \<Longrightarrow> Suc (size et) < size t"
  using Indirect_type_size [of t v t' x] by auto

lemma zip_fst_mem: "p \<in> set (zip xs ys) \<Longrightarrow> fst p \<in> set xs"
  by (cases p) (auto dest: set_zip_leftD)

text \<open>
  \<open>Decode env t v rd\<close> is \<^verbatim>\<open>(*Decoder).Decode(v)\<close> for an interface value of dynamic
  type \<open>t\<close> and value \<open>v\<close> (for a pointer, \<open>VPtr x\<close> with \<open>x\<close> what the target holds now),
  reading from \<open>rd\<close>; it returns the error, the value of \<open>v\<close> after the call (for a
  pointer, what the target holds then) and the reader's new state. The elements, fields,
  keys and values reach the recursive call as \<^verbatim>\<open>.Addr().Interface()\<close>, that is, as
  pointers. The counts of the loops are \<^verbatim>\<open>int(l)\<close>. Memory is not bounded in the
  model: \<^verbatim>\<open>make\<close> and \<^verbatim>\<open>reflect.MakeSlice\<close> fail on a negative length only.
\<close>

function Decode :: "menv \<Rightarrow> gtype \<Rightarrow> gval \<Rightarrow> reader \<Rightarrow> error option \<times> gval \<times> reader" where
  "Decode env t v rd =
     (case decode_basic t v rd of
        Some r \<Rightarrow> r
      | None \<Rightarrow>
          (case as_BinaryUnmarshaler env t v of
             Some g \<Rightarrow>
               (case read_blob rd of
                  (Inl e, rd') \<Rightarrow> (Some e, v, rd')
                | (Inr (buf, err), rd') \<Rightarrow> (fst (g buf), snd (g buf), rd'))
           | None \<Rightarrow>
               (case Indirect t v of
                  None \<Rightarrow> (Some NotPointer, v, rd)
                | Some (addr, t', x) \<Rightarrow>
                    (if \<not> addr then (Some NotPointer, v, rd)
                     else
                       (case Kind t' of
                          KArray n et \<Rightarrow>
                            (case ReadUvarint rd of
                               (l, Some e, rd') \<Rightarrow> (Some e, v, rd')
                             | (l, None, rd') \<Rightarrow>
                                 (if sint l \<noteq> int n then (Some (SizeMismatch l n), v, rd')
                                  else
                                    (case the_seq x of
                                       None \<Rightarrow> (Some IllTyped, v, rd')
                                     | Some xs \<Rightarrow>
                                         (case decode_each (\<lambda>y. y)
                                                 (\<lambda>y st. case Decode env (TPtr et) (VPtr y) st of
                                                            (e, y', st') \<Rightarrow> (e, deref y', st'))
                                                 xs rd' of
                                            (e, ys, rd'') \<Rightarrow> (e, VPtr (VSeq ys), rd'')))))
                        | KSlice et \<Rightarrow>
                            (case ReadUvarint rd of
                               (l, Some e, rd') \<Rightarrow> (Some e, v, rd')
                             | (l, None, rd') \<Rightarrow>
                                 (if sint l < 0
                                  then (Some (Panic ''reflect.MakeSlice: negative len''), v, rd')
                                  else
                                    (case decode_each (\<lambda>y. y)
                                            (\<lambda>y st. case Decode env (TPtr et) (VPtr y) st of
                                                       (e, y', st') \<Rightarrow> (e, deref y', st'))
                                            (replicate (unat l) (zero et)) rd' of
                                       (e, ys, rd'') \<Rightarrow> (e, VPtr (VSeq ys), rd''))))
                        | KStruct fs \<Rightarrow>
                            (case the_struct x of
                               None \<Rightarrow> (Some IllTyped, v, rd)
                             | Some xs \<Rightarrow>
                                 (case decode_each snd
                                         (\<lambda>fy st.
                                            if CanSet addr (fst (fst fy)) \<and> fst (fst fy) \<noteq> ''_''
                                            then (case Decode env (TPtr (snd (fst fy))) (VPtr (snd fy)) st of
                                                    (e, y', st') \<Rightarrow> (e, deref y', st'))
                                            else (None, snd fy, st))
                                         (zip fs xs) rd of
                                    (e, ys, rd') \<Rightarrow> (e, VPtr (VStruct ys), rd')))
                        | KMap kt vt \<Rightarrow>
                            (case ReadUvarint rd of
                               (l, Some e, rd') \<Rightarrow> (Some e, v, rd')
                             | (l, None, rd') \<Rightarrow>
                                 (case decode_pairs
                                         (\<lambda>st. case Decode env (TPtr kt) (VPtr (zero kt)) st of
                                                  (e, y', st') \<Rightarrow> (e, deref y', st'))
                                         (\<lambda>st. case Decode env (TPtr vt) (VPtr (zero vt)) st of
                                                  (e, y', st') \<Rightarrow> (e, deref y', st'))
                                         (if sint l < 0 then 0 else unat l) [] rd' of
                                    (e, m, rd'') \<Rightarrow> (e, VPtr (VMap m), rd'')))
                        | KOther \<Rightarrow> (Some (Unsupported t'), v, rd))))))"
  by pat_completeness auto
termination
  apply (relation "measure (\<lambda>(env, t, v, rd). size t)")
       apply simp
      apply simp_all
      apply (erule (2) Decode_term_elem, erule Kind_size(1))
     apply (erule (2) Decode_term_elem, erule Kind_size(2))
    apply (erule (2) Decode_term_elem, erule Kind_struct_size, erule zip_fst_mem)
   apply (erule (2) Decode_term_elem, drule Kind_size(3), simp)
  apply (erule (2) Decode_term_elem, drule Kind_size(3), simp)
  done

declare Decode.simps [simp del]

text \<open>\<^verbatim>\<open>Unmarshal(b, v)\<close>: the error and the value of \<open>v\<close> after the call.\<close>

definition Unmarshal :: "menv \<Rightarrow> byte list \<Rightarrow> gtype \<Rightarrow> gval \<Rightarrow> error option \<times> gval" where
  "Unmarshal env b t v =
     (case Decode env t v (NewReader b) of
        (e, v', rd) \<Rightarrow> (e, v'))"

section \<open>The types of the package's tests\<close>

text \<open>
  \<^verbatim>\<open>type s0 struct { A string; B string; C int16 }\<close> with
  \<^verbatim>\<open>s0v = &s0{"A", "B", 1}\<close> and \<^verbatim>\<open>s0b = []byte{0x1, 0x41, 0x1, 0x42, 0x1, 0x0}\<close>.
\<close>

definition s0 :: gtype where
  "s0 = TNamed ''s0'' (TStruct [(''A'', TString), (''B'', TString), (''C'', TSized Int16)])"

definition s0v :: gval where
  "s0v = VPtr (VStruct [VString [0x41], VString [0x42], VW16 1])"

definition s0b :: "byte list" where
  "s0b = [0x1, 0x41, 0x1, 0x42, 0x1, 0x0]"

text \<open>
  \<^verbatim>\<open>type s2 struct { b []byte }\<close>, whose two methods have pointer receivers:
  \<^verbatim>\<open>
  func (s *s2) UnmarshalBinary(data []byte) error {
      if len(data) != 1 { return errors.New("expected data to be length 1") }
      s.b = data
      return nil
  }
  func (s *s2) MarshalBinary() (data []byte, err error) { return s.b, nil }
  \<close>
\<close>

definition s2 :: gtype where
  "s2 = TNamed ''s2'' (TStruct [(''b'', TSlice (TSized Uint8))])"

definition s2_UnmarshalBinary :: "gval \<Rightarrow> byte list \<Rightarrow> error option \<times> gval" where
  "s2_UnmarshalBinary s data =
     (if length data \<noteq> 1 then (Some (Custom ''expected data to be length 1''), s)
      else (None, VStruct [VSeq (map VW8 data)]))"

definition s2_MarshalBinary :: "gval \<Rightarrow> error + byte list" where
  "s2_MarshalBinary s =
     (case s of
        VStruct xs \<Rightarrow>
          (case xs of
             [b] \<Rightarrow> (case bytes_of b of Some bs \<Rightarrow> Inr bs | None \<Rightarrow> Inl IllTyped)
           | _ \<Rightarrow> Inl IllTyped)
      | _ \<Rightarrow> Inl IllTyped)"

definition test_methods :: menv where
  "test_methods =
     \<lparr>MarshalBinary = (\<lambda>n. if n = ''s2'' then Some (True, s2_MarshalBinary) else None),
      UnmarshalBinary = (\<lambda>n. if n = ''s2'' then Some (True, s2_UnmarshalBinary) else None)\<rparr>"

text \<open>\<^verbatim>\<open>type Foo int64\<close> of \<^verbatim>\<open>TestMarshalUnMarshalTypeAliases\<close>.\<close>

definition Foo :: gtype where
  "Foo = TNamed ''Foo'' (TSized Int64)"

text \<open>A type whose \<^verbatim>\<open>MarshalBinary\<close>, with a value receiver, always fails.\<close>

definition failing_methods :: menv where
  "failing_methods =
     \<lparr>MarshalBinary = (\<lambda>n. if n = ''bad'' then Some (False, \<lambda>v. Inl (Custom ''boom'')) else None),
      UnmarshalBinary = (\<lambda>n. None)\<rparr>"

section \<open>Scalar types\<close>




section \<open>Further example values\<close>


definition Inner :: gtype where
  "Inner = TNamed ''Inner'' (TStruct [(''X'', TSized Int8)])"

definition Outer :: gtype where
  "Outer = TNamed ''Outer'' (TStruct [(''I'', Inner)])"

definition long_string :: "byte list" where
  "long_string = replicate 4096 0x61"

section \<open>Values that round-trip\<close>







section \<open>A reader that holds its whole input in the buffer\<close>

text \<open>
  \<open>avail rd\<close> is what is still to be read. \<open>single rd\<close> holds of a reader whose input
  is no longer than the buffer: before the first read the buffer is empty and the input
  fits in it, afterwards nothing is left in the underlying reader. \<open>rd_of ys\<close> is the
  reader after the first read, with \<open>ys\<close> still to be read.
\<close>

definition avail :: "reader \<Rightarrow> byte list" where
  "avail rd = buffered rd @ rest rd"

definition single :: "reader \<Rightarrow> bool" where
  "single rd \<longleftrightarrow> rest rd = [] \<or> (buffered rd = [] \<and> length (rest rd) \<le> defaultBufSize)"

definition rd_of :: "byte list \<Rightarrow> reader" where
  "rd_of ys = \<lparr>buffered = ys, rest = []\<rparr>"






section \<open>Reading from a fresh reader\<close>

lemma ReadFull_one:
  "0 < n \<Longrightarrow> bufio_Read rd n = (got, None, rd') \<Longrightarrow> length got = n
   \<Longrightarrow> ReadFull rd n = (got, None, rd')"
  by (simp add: ReadFull_def ReadFull_loop.simps [of rd n "[]"] ReadFull_loop.simps [of rd' n got])

lemma bufio_Read_NewReader:
  "0 < n \<Longrightarrow> n < defaultBufSize \<Longrightarrow> n \<le> length b
   \<Longrightarrow> bufio_Read (NewReader b) n
       = (take n b, None, \<lparr>buffered = drop n (take defaultBufSize b), rest = drop defaultBufSize b\<rparr>)"
  by (auto simp: bufio_Read_def NewReader_def min_def)

lemma binary_Read_NewReader:
  "0 < n \<Longrightarrow> n < defaultBufSize \<Longrightarrow> n \<le> length b
   \<Longrightarrow> binary_Read (NewReader b) n
       = (Inr (take n b), \<lparr>buffered = drop n (take defaultBufSize b), rest = drop defaultBufSize b\<rparr>)"
  by (simp add: binary_Read_def ReadFull_one [OF _ bufio_Read_NewReader])




lemma Kind_KArray_not_basic:
  "Kind t = KArray n et
   \<Longrightarrow> decode_basic (TPtr t) v rd = None \<and> Indirect (TPtr t) (VPtr x) = Some (True, t, x)"
  by (cases t) (auto simp: Kind_def decode_basic_def Indirect_def split: gtype.splits)

lemma unat_neq_sint_neq: "unat (l :: 64 word) \<noteq> n \<Longrightarrow> sint l \<noteq> int n"
proof
  assume neq: "unat l \<noteq> n" and eq: "sint l = int n"
  have "l = word_of_int (sint l)"
    by simp
  also have "\<dots> = word_of_nat n"
    by (simp only: eq of_int_of_nat_eq)
  finally have l: "l = word_of_nat n" .
  have "int n < 2 ^ 63"
    using sint_lt [of l] eq by simp
  then have "n < 2 ^ 63"
    by (simp only: of_nat_less_numeral_power_cancel_iff)
  also have "(2::nat) ^ 63 < 2 ^ 64"
    by (rule power_strict_increasing) simp_all
  finally have "n < 2 ^ LENGTH(64)"
    by simp
  then have "unat l = n"
    by (simp only: l unat_of_nat mod_less)
  with neq show False by simp
qed

section \<open>Words\<close>

lemma length_le_bytes [simp]: "length (le_bytes n w) = n"
  by (induction n arbitrary: w) simp_all


lemma le_roundtrip_8: "le_word [w :: 8 word] = w"
  by simp








section \<open>Reading what was written\<close>

lemma single_rd_of [simp]: "single (rd_of ys)"
  by (simp add: single_def rd_of_def)

lemma avail_rd_of [simp]: "avail (rd_of ys) = ys"
  by (simp add: avail_def rd_of_def)


lemma avail_NewReader [simp]: "avail (NewReader b) = b"
  by (simp add: avail_def NewReader_def)









































section \<open>Where decoding does not give the value back\<close>

text \<open>A struct that is not reached through a pointer is not addressable, so none of its
  fields can be set and \<^verbatim>\<open>Encode\<close> writes none of them; \<^verbatim>\<open>Decode\<close>, which reaches
  the same struct through \<^verbatim>\<open>Addr()\<close>, reads all of them.\<close>

lemma nested_struct_not_encoded:
  "Marshal no_methods (TPtr Outer) (VPtr (VStruct [VStruct [VW8 5]])) = Inr []
   \<and> Unmarshal no_methods [] (TPtr Outer) (VPtr (zero Outer))
       = (Some EOF, VPtr (VStruct [VStruct [VW8 0]]))"
  by code_simp

text \<open>The same at the top: \<^verbatim>\<open>Marshal\<close> of an \<^verbatim>\<open>s0\<close> passed by value, not by
  pointer, succeeds and returns no bytes.\<close>

lemma Marshal_struct_by_value_empty:
  "Marshal no_methods s0 (VStruct [VString [0x41], VString [0x42], VW16 1]) = Inr []"
  by code_simp

text \<open>A string of 4096 bytes: the buffer of the reader holds the two bytes of the length
  and 4094 bytes of the string, the one \<^verbatim>\<open>Read\<close> returns these, and the string
  ends in two zero bytes.\<close>

lemma Marshal_long_string: "Marshal no_methods TString (VString long_string) = Inr (0x80 # 0x20 # long_string)"
proof -
  have "PutUvarint Encoder_buf_len (of_nat (length long_string)) = Inr [0x80, 0x20]"
    by (simp add: long_string_def) code_simp
  then show ?thesis
    by (simp add: Marshal_def Encode.simps as_BinaryMarshaler_def encode_basic_def write_blob_def
        writeVarint_def Buffer_Write_def)
qed

lemma ReadUvarint_4096:
  assumes "ReadByte rd = (Inr 0x80, rd1)" and "ReadByte rd1 = (Inr 0x20, rd2)"
  shows "ReadUvarint rd = (4096, None, rd2)"
proof -
  have w: "(0 OR push_bit 0 (ucast ((0x80 :: byte) AND 0x7f)) :: 64 word) = 0"
    "\<not> (0x80 :: byte) < 0x80" "(0x20 :: byte) < 0x80" "\<not> 1 < (0::nat)"
    "((0 :: 64 word) OR push_bit 7 (ucast (0x20 :: byte))) = 4096"
    by code_simp+
  show ?thesis
    unfolding ReadUvarint_def
    by (simp add: ReadUvarint_loop.simps [of rd] ReadUvarint_loop.simps [of rd1] assms
        MaxVarintLen64_def w)
qed

lemma Unmarshal_long_string_short_read:
  "Unmarshal no_methods (0x80 # 0x20 # long_string) (TPtr TString) (VPtr (VString []))
   = (None, VPtr (VString (replicate 4094 0x61 @ replicate 2 0)))"
proof -
  let ?b = "0x80 # 0x20 # long_string"
  let ?rd1 = "\<lparr>buffered = 0x20 # replicate 4094 0x61, rest = replicate 2 0x61\<rparr>"
  let ?rd2 = "\<lparr>buffered = replicate 4094 0x61, rest = replicate 2 0x61\<rparr>"
  have 1: "ReadByte (NewReader ?b) = (Inr 0x80, ?rd1)"
    by (simp add: ReadByte_def fill_def NewReader_def defaultBufSize_def long_string_def)
  have 2: "ReadByte ?rd1 = (Inr 0x20, ?rd2)"
    by (simp add: ReadByte_def)
  have r: "ReadUvarint (NewReader ?b) = (4096, None, ?rd2)"
    by (rule ReadUvarint_4096 [OF 1 2])
  have l: "\<not> sint (4096 :: 64 word) < 0" "unat (4096 :: 64 word) = 4096"
    by simp_all
  have "Read_into ?rd2 4096 = (replicate 4094 0x61 @ replicate 2 0, None, \<lparr>buffered = [], rest = replicate 2 0x61\<rparr>)"
    by (simp add: Read_into_def bufio_Read_def)
  then show ?thesis
    by (simp add: Unmarshal_def Decode.simps decode_basic_def read_blob_def r l store_def)
qed

section \<open>The claims\<close>




text \<open>
  Claim C2. A defined type over a base scalar encodes as its underlying type does.
  The code does not do this: the cases of the type switch match the type \<^verbatim>\<open>int64\<close>
  itself, the \<^verbatim>\<open>default\<close> branch has no case for the scalar kinds, and so
  \<^verbatim>\<open>Marshal(Foo(32))\<close> returns the error \<^verbatim>\<open>unsupported type\<close>, where
  \<^verbatim>\<open>Marshal(int64(32))\<close> returns the eight bytes that
  \<^verbatim>\<open>TestMarshalUnMarshalTypeAliases\<close> expects for \<^verbatim>\<open>Foo(32)\<close>.
\<close>

theorem Marshal_named_scalar_unsupported:
  "Marshal no_methods Foo (VW64 32) = Inl (Unsupported Foo)
   \<and> Marshal no_methods (TSized Int64) (VW64 32) = Inr [0x20, 0x0, 0x0, 0x0, 0x0, 0x0, 0x0, 0x0]"
  by code_simp

text \<open>
  Claim C3. A short read of the blob of a custom unmarshaler is an error. The code does
  not do this: it assigns the error of \<^verbatim>\<open>d.r.Read(buf)\<close> and then returns the result of
  \<^verbatim>\<open>i.UnmarshalBinary(buf)\<close>. On the input \<^verbatim>\<open>[0x01]\<close>, which promises one byte and
  holds none, the \<^verbatim>\<open>Read\<close> returns \<^verbatim>\<open>io.EOF\<close>, \<^verbatim>\<open>UnmarshalBinary\<close> of
  \<^verbatim>\<open>s2\<close> gets the buffer \<^verbatim>\<open>[0x00]\<close> that \<^verbatim>\<open>make\<close> left and accepts it, and
  \<^verbatim>\<open>Unmarshal\<close> returns no error. The string case, on the same input, returns
  \<^verbatim>\<open>io.EOF\<close>.
\<close>

theorem Unmarshal_custom_short_read_accepted:
  "Unmarshal test_methods [0x01] (TPtr s2) (VPtr (VStruct [VSeq []]))
     = (None, VPtr (VStruct [VSeq [VW8 0]]))
   \<and> fst (Unmarshal test_methods [0x01] (TPtr TString) (VPtr (VString []))) = Some EOF"
  by code_simp

text \<open>
  Claim C4, as the code has it. The encoder writes a varint with
  \<^verbatim>\<open>writeVarint(v int)\<close>, into its scratch buffer of 8 bytes. The values 0, 127, 128,
  16383 and 16384 are written as 1, 1, 2, 2 and 3 bytes, and \<^verbatim>\<open>binary.ReadUvarint\<close>
  reads each of these encodings back to the value; it also reads the 10-byte encoding of
  \<open>2^64 - 1\<close> back to \<open>2^64 - 1\<close>.
\<close>

theorem varint_boundaries:
  "map (\<lambda>x. writeVarint Buffer_Write x []) [0, 127, 128, 16383, 16384]
     = [(None, [0x00]), (None, [0x7f]), (None, [0x80, 0x01]), (None, [0xff, 0x7f]),
        (None, [0x80, 0x80, 0x01])]
   \<and> map (\<lambda>b. ReadUvarint (NewReader b))
         [[0x00], [0x7f], [0x80, 0x01], [0xff, 0x7f], [0x80, 0x80, 0x01]]
     = map (\<lambda>x. (x, None, \<lparr>buffered = [], rest = []\<rparr>)) [0, 127, 128, 16383, 16384]
   \<and> ReadUvarint (NewReader [0xff, 0xff, 0xff, 0xff, 0xff, 0xff, 0xff, 0xff, 0xff, 0x01])
     = (0xFFFFFFFFFFFFFFFF, None, \<lparr>buffered = [], rest = []\<rparr>)"
  by code_simp

text \<open>
  Claim C4 as stated also has the encoder write \<open>2^64 - 1\<close> as 10 bytes. The argument
  of \<^verbatim>\<open>writeVarint\<close> is an \<^verbatim>\<open>int\<close>, which holds a length; the one \<^verbatim>\<open>int\<close> whose 64
  bits are \<open>2^64 - 1\<close> is \<open>-1\<close>, and on it \<^verbatim>\<open>binary.PutUvarint\<close> runs over the end of
  the 8-byte buffer: nothing is written.
\<close>

theorem writeVarint_max_panics:
  "writeVarint Buffer_Write 0xFFFFFFFFFFFFFFFF [] = (Some (Panic ''index out of range''), [])"
  by code_simp

text \<open>
  Claim C5. A length prefix that promises more bytes than the source holds is an error.
  The code does not do this when the source holds at least one of the bytes: the one
  \<^verbatim>\<open>d.r.Read(buf)\<close> returns the bytes there are and no error, and the string is the
  buffer with the zeros \<^verbatim>\<open>make\<close> left. On the input \<^verbatim>\<open>[0x05, 'a', 'b']\<close> the target
  becomes \<^verbatim>\<open>"ab\x00\x00\x00"\<close> and \<^verbatim>\<open>Unmarshal\<close> returns no error. The fixed-width
  cases, which read with \<^verbatim>\<open>io.ReadFull\<close>, return \<^verbatim>\<open>io.ErrUnexpectedEOF\<close> on a
  source that ends early.
\<close>

theorem Unmarshal_string_short_read_accepted:
  "Unmarshal no_methods [0x05, 0x61, 0x62] (TPtr TString) (VPtr (VString []))
     = (None, VPtr (VString [0x61, 0x62, 0, 0, 0]))
   \<and> Unmarshal no_methods [0x01, 0x00] (TPtr (TSized Uint32)) (VPtr (VW32 0))
     = (Some ErrUnexpectedEOF, VPtr (VW32 0))"
  by code_simp

text \<open>
  Claim C6. Decoding into a fixed-length array whose declared length \<open>n\<close> differs from
  the decoded element count \<open>l\<close> fails with the size-mismatch error, and leaves the target
  as it was: nothing is truncated or padded. The target is a pointer to a value of array
  kind that has no \<^verbatim>\<open>UnmarshalBinary\<close> method.
\<close>

theorem Decode_array_length_mismatch:
  assumes "Kind t = KArray n et"
    and "as_BinaryUnmarshaler env (TPtr t) (VPtr x) = None"
    and "ReadUvarint rd = (l, None, rd')"
    and "unat l \<noteq> n"
  shows "Decode env (TPtr t) (VPtr x) rd = (Some (SizeMismatch l n), VPtr x, rd')"
  using assms Kind_KArray_not_basic [OF assms(1)] unat_neq_sint_neq [OF assms(4)]
  by (simp add: Decode.simps)

text \<open>A count of 3 into \<^verbatim>\<open>[2]uint8\<close>.\<close>

theorem Decode_array_length_mismatch_witness:
  "Kind (TArray 2 (TSized Uint8)) = KArray 2 (TSized Uint8)
   \<and> as_BinaryUnmarshaler no_methods (TPtr (TArray 2 (TSized Uint8))) (VPtr (VSeq [VW8 0, VW8 0])) = None
   \<and> ReadUvarint (NewReader [3, 1, 2, 3]) = (3, None, \<lparr>buffered = [1, 2, 3], rest = []\<rparr>)
   \<and> unat (3 :: 64 word) \<noteq> 2
   \<and> Decode no_methods (TPtr (TArray 2 (TSized Uint8))) (VPtr (VSeq [VW8 0, VW8 0]))
        (NewReader [3, 1, 2, 3])
       = (Some (SizeMismatch 3 2), VPtr (VSeq [VW8 0, VW8 0]), \<lparr>buffered = [1, 2, 3], rest = []\<rparr>)"
proof -
  have k: "Kind (TArray 2 (TSized Uint8)) = KArray 2 (TSized Uint8)"
    by (simp add: Kind_def)
  have u: "as_BinaryUnmarshaler no_methods (TPtr (TArray 2 (TSized Uint8))) (VPtr (VSeq [VW8 0, VW8 0])) = None"
    by (simp add: as_BinaryUnmarshaler_def)
  have r: "ReadUvarint (NewReader [3, 1, 2, 3]) = (3, None, \<lparr>buffered = [1, 2, 3], rest = []\<rparr>)"
    by code_simp
  have n: "unat (3 :: 64 word) \<noteq> 2"
    by simp
  show ?thesis
    using k u r n Decode_array_length_mismatch [OF k u r n] by simp
qed

text \<open>
  Claim C7. Encoding \<^verbatim>\<open>&s0{"A", "B", 1}\<close>, as \<^verbatim>\<open>TestBinaryEncodeStruct\<close> does, gives
  exactly \<^verbatim>\<open>[0x1, 0x41, 0x1, 0x42, 0x1, 0x0]\<close>: the fields in declaration order, each
  string as its length and its bytes, the \<^verbatim>\<open>int16\<close> as two little-endian bytes, and
  nothing else.
\<close>

theorem Marshal_s0:
  "Marshal no_methods (TPtr s0) s0v = Inr s0b"
  by code_simp

text \<open>
  Claim C8. When the value implements \<^verbatim>\<open>encoding.BinaryMarshaler\<close> and its
  \<^verbatim>\<open>MarshalBinary\<close> returns an error, \<^verbatim>\<open>Encode\<close> returns that error and the sink is
  in the state it was in: no length prefix and no other byte has been written. This holds
  for every sink.
\<close>

theorem Encode_marshaler_error:
  assumes "as_BinaryMarshaler env t v = Some (Inl e)"
  shows "Encode env wr t v s = (Some e, s)"
  using assms by (simp add: Encode.simps)

text \<open>The prefix is written once \<^verbatim>\<open>MarshalBinary\<close> has succeeded, and the payload after
  it.\<close>

lemma Encode_marshaler_ok:
  assumes "as_BinaryMarshaler env t v = Some (Inr buf)"
  shows "Encode env wr t v s = write_blob wr buf s"
  using assms by (simp add: Encode.simps)

theorem Encode_marshaler_error_witness:
  "as_BinaryMarshaler failing_methods (TNamed ''bad'' (TStruct [])) (VStruct [])
     = Some (Inl (Custom ''boom''))
   \<and> Encode failing_methods Buffer_Write (TNamed ''bad'' (TStruct [])) (VStruct []) [0x2a]
     = (Some (Custom ''boom''), [0x2a])"
proof -
  have a: "as_BinaryMarshaler failing_methods (TNamed ''bad'' (TStruct [])) (VStruct [])
             = Some (Inl (Custom ''boom''))"
    by (simp add: as_BinaryMarshaler_def failing_methods_def)
  show ?thesis
    using a Encode_marshaler_error [OF a, of Buffer_Write "[0x2a]"] by simp
qed



text \<open>
  Claim C10. Decoding into a \<^verbatim>\<open>*bool\<close> from an input whose first byte is \<open>b\<close> returns
  no error and stores \<^verbatim>\<open>b != 0\<close>: \<^verbatim>\<open>0x00\<close> is false, every other byte is true, and no
  byte is rejected.
\<close>

theorem Unmarshal_bool:
  "Unmarshal env (b # bs) (TPtr TBool) (VPtr (VBool old)) = (None, VPtr (VBool (b \<noteq> 0)))"
  by (simp add: Unmarshal_def Decode.simps decode_basic_def binary_Read_NewReader
      defaultBufSize_def store_def)

end
